theory Spec2Isabelle
  imports Main
begin

section \<open>Strings\<close>

text \<open>
  A Python \<open>str\<close> is modelled as a \<open>string\<close>, a list of 8-bit characters holding the
  UTF-8 encoding of the text. \<open>isspace\<close> and \<open>lower\<close> follow Python on ASCII text:
  the ASCII characters for which \<open>str.isspace\<close> holds are 9 to 13 and 28 to 32, and
  \<open>str.lower\<close> moves \<open>A\<close> to \<open>Z\<close> by 32. Characters of 128 and above are kept as they
  are (no non-ASCII character lowers to one of \<open>e\<close>, \<open>x\<close>, \<open>i\<close>, \<open>t\<close> in Python, so
  the comparison with \<open>exit\<close> is not affected; non-ASCII white space is not trimmed by
  the model).
\<close>

definition NL :: char where
  "NL = CHR 0x0A"

definition isspace :: "char \<Rightarrow> bool" where
  "isspace c = (let n = (of_char c :: nat) in (9 \<le> n \<and> n \<le> 13) \<or> (28 \<le> n \<and> n \<le> 32))"

definition lower_char :: "char \<Rightarrow> char" where
  "lower_char c = (let n = (of_char c :: nat) in if 65 \<le> n \<and> n \<le> 90 then char_of (n + 32) else c)"

definition lower :: "string \<Rightarrow> string" where
  "lower s = map lower_char s"

definition lstrip :: "string \<Rightarrow> string" where
  "lstrip s = dropWhile isspace s"

definition rstrip :: "string \<Rightarrow> string" where
  "rstrip s = rev (dropWhile isspace (rev s))"

definition strip :: "string \<Rightarrow> string" where
  "strip s = rstrip (lstrip s)"

definition startswith :: "string \<Rightarrow> string \<Rightarrow> bool" where
  "startswith s p = (take (length p) s = p)"

section \<open>The environment: child process, pipes, clock\<close>

text \<open>
  What the program does to its environment is recorded as a list of calls, in the order
  they are made. Every \<open>print\<close> of the source passes \<open>flush=True\<close>.
\<close>

datatype effect =
    StdinWrite string      \<comment> \<open>\<open>server_process.stdin.write(s)\<close>\<close>
  | StdinFlush             \<comment> \<open>\<open>server_process.stdin.flush()\<close>\<close>
  | WaitTimeout nat        \<comment> \<open>\<open>server_process.wait(timeout=t)\<close>\<close>
  | Terminate              \<comment> \<open>\<open>server_process.terminate()\<close>\<close>
  | Wait                   \<comment> \<open>\<open>server_process.wait()\<close>\<close>
  | Print string           \<comment> \<open>\<open>print(s, flush=True)\<close>\<close>
  | StopEventSet           \<comment> \<open>\<open>stop_event.set()\<close>\<close>
  | JoinInputThread nat    \<comment> \<open>\<open>inp_thread.join(timeout=t)\<close>\<close>
  | SysStdinClose          \<comment> \<open>\<open>sys.stdin.close()\<close>\<close>

datatype exn =
    BrokenPipeError | OSError | ValueError | UnicodeDecodeError
  | TimeoutExpired | KeyboardInterrupt

text \<open>\<open>except Exception\<close> catches everything but \<open>KeyboardInterrupt\<close>, a \<open>BaseException\<close>.\<close>

definition is_Exception :: "exn \<Rightarrow> bool" where
  "is_Exception e = (e \<noteq> KeyboardInterrupt)"

text \<open>How a call ends: it returns, it raises, or it never returns.\<close>

datatype outcome = Returned | Raised exn | Blocked

text \<open>
  The child process as the program sees it. \<open>running\<close>: the child has not exited
  (\<open>poll()\<close> is \<open>None\<close>). \<open>stdin_open\<close>: the child still reads its input pipe.
  \<open>exit_delay\<close>: the time units after which the child exits by itself, counted from the
  moment the program starts to wait for it (\<open>None\<close>: it never does). \<open>heeds_sigterm\<close>:
  the child exits when it is sent the termination signal. \<open>now\<close>: the wall clock, as
  hour, minute and second.
\<close>

record world =
  running :: bool
  stdin_open :: bool
  exit_delay :: "nat option"
  heeds_sigterm :: bool
  now :: "nat \<times> nat \<times> nat"
  effects :: "effect list"

definition call :: "effect \<Rightarrow> world \<Rightarrow> world" where
  "call e w = w\<lparr>effects := effects w @ [e]\<rparr>"

definition poll :: "world \<Rightarrow> bool" where
  \<comment> \<open>\<open>server_process.poll() is None\<close>\<close>
  "poll w = running w"

definition stdin_write :: "string \<Rightarrow> world \<Rightarrow> outcome \<times> world" where
  \<comment> \<open>the text goes to the buffer of the pipe; nothing is sent yet\<close>
  "stdin_write s w = (Returned, call (StdinWrite s) w)"

definition stdin_flush :: "world \<Rightarrow> outcome \<times> world" where
  \<comment> \<open>sending to a pipe nobody reads raises \<open>BrokenPipeError\<close>\<close>
  "stdin_flush w =
     (if stdin_open w then (Returned, call StdinFlush w)
      else (Raised BrokenPipeError, call StdinFlush w))"

definition wait_timeout :: "nat \<Rightarrow> world \<Rightarrow> outcome \<times> world" where
  "wait_timeout t w =
     (let w' = call (WaitTimeout t) w in
      if \<not> running w then (Returned, w')
      else case exit_delay w of
             None \<Rightarrow> (Raised TimeoutExpired, w')
           | Some d \<Rightarrow>
               if d \<le> t then (Returned, w'\<lparr>running := False\<rparr>)
               else (Raised TimeoutExpired, w'\<lparr>exit_delay := Some (d - t)\<rparr>))"

definition terminate :: "world \<Rightarrow> outcome \<times> world" where
  "terminate w =
     (let w' = call Terminate w in
      (Returned, if running w \<and> heeds_sigterm w then w'\<lparr>exit_delay := Some 0\<rparr> else w'))"

definition wait :: "world \<Rightarrow> outcome \<times> world" where
  "wait w =
     (let w' = call Wait w in
      if \<not> running w then (Returned, w')
      else case exit_delay w of
             None \<Rightarrow> (Blocked, w')
           | Some d \<Rightarrow> (Returned, w'\<lparr>running := False\<rparr>))"

definition print :: "string \<Rightarrow> world \<Rightarrow> outcome \<times> world" where
  "print s w = (Returned, call (Print s) w)"

section \<open>Control flow\<close>

definition seq :: "outcome \<times> world \<Rightarrow> (world \<Rightarrow> outcome \<times> world) \<Rightarrow> outcome \<times> world" where
  \<comment> \<open>one statement after another: the second runs when the first returns\<close>
  "seq r f = (case r of (Returned, w) \<Rightarrow> f w | _ \<Rightarrow> r)"

definition except_Exception_pass :: "outcome \<times> world \<Rightarrow> outcome \<times> world" where
  \<comment> \<open>\<open>try: ... except Exception: pass\<close>\<close>
  "except_Exception_pass r =
     (case r of
        (Raised e, w) \<Rightarrow> if is_Exception e then (Returned, w) else r
      | _ \<Rightarrow> r)"

definition try_finally :: "outcome \<times> world \<Rightarrow> (world \<Rightarrow> outcome \<times> world) \<Rightarrow> outcome \<times> world" where
  \<comment> \<open>\<open>try: ... finally: ...\<close>: the clean-up runs, then a pending exception goes on\<close>
  "try_finally r cleanup =
     (case r of
        (Returned, w) \<Rightarrow> cleanup w
      | (Raised e, w) \<Rightarrow>
          (case cleanup w of (Returned, w') \<Rightarrow> (Raised e, w') | r' \<Rightarrow> r')
      | (Blocked, w) \<Rightarrow> r)"

section \<open>shutdown_server\<close>

definition shutdown_server :: "world \<Rightarrow> outcome \<times> world" where
  "shutdown_server w =
     (if poll w then
        seq (except_Exception_pass (seq (stdin_write (''stop'' @ [NL]) w) stdin_flush))
          (\<lambda>w. case wait_timeout 10 w of
                  (Raised TimeoutExpired, w') \<Rightarrow> seq (terminate w') wait
                | r \<Rightarrow> r)
      else (Returned, w))"

section \<open>The main loop\<close>

text \<open>
  What happens around the main thread, in the order it happens. The first three are
  changes of the environment, seen by the program at its next look (\<open>poll\<close>, a write,
  the clock). \<open>Dequeue\<close> is the outcome of \<open>input_queue.get(timeout=0.1)\<close>: a captured
  line, or \<open>None\<close> for \<open>queue.Empty\<close>. \<open>Interrupt\<close> is a \<open>KeyboardInterrupt\<close> raised
  while the main thread waits on the queue.
\<close>

datatype event =
    ChildExits
  | ChildClosesStdin
  | Clock nat nat nat
  | Dequeue "string option"
  | Interrupt

fun absorb :: "world \<Rightarrow> event list \<Rightarrow> world \<times> event list" where
  "absorb w (ChildExits # evs) = absorb (w\<lparr>running := False\<rparr>) evs"
| "absorb w (ChildClosesStdin # evs) = absorb (w\<lparr>stdin_open := False\<rparr>) evs"
| "absorb w (Clock h m s # evs) = absorb (w\<lparr>now := (h, m, s)\<rparr>) evs"
| "absorb w evs = (w, evs)"

definition digit :: "nat \<Rightarrow> char" where
  "digit d = char_of (48 + d)"

definition pad2 :: "nat \<Rightarrow> string" where
  \<comment> \<open>\<open>%H\<close>, \<open>%M\<close>, \<open>%S\<close>: two digits, for a number below 100\<close>
  "pad2 n = [digit (n div 10), digit (n mod 10)]"

definition strftime_HMS :: "nat \<times> nat \<times> nat \<Rightarrow> string" where
  \<comment> \<open>\<open>strftime("%H:%M:%S")\<close>\<close>
  "strftime_HMS t = (case t of (h, m, s) \<Rightarrow> pad2 h @ '':'' @ pad2 m @ '':'' @ pad2 s)"

definition command :: "string \<Rightarrow> world \<Rightarrow> outcome \<times> world" where
  \<comment> \<open>the last two branches of the loop body, lines 114 to 121\<close>
  "command user_input w =
     (if startswith user_input ''fakelog '' then
        let message = drop (length ''fakelog '') user_input;
            timestamp = strftime_HMS (now w)
        in print (''['' @ timestamp @ '' INFO]: '' @ message) w
      else if poll w then
        seq (stdin_write (user_input @ [NL]) w) stdin_flush
      else (Returned, w))"

text \<open>
  The \<open>while True\<close> loop of \<open>main\<close>, lines 101 to 121. \<open>absorb\<close> applies the changes of
  the environment that have happened before the program looks: before the \<open>poll\<close> of
  line 103, and again between the dequeue and the handling of the line (the \<open>poll\<close> of
  lines 47 and 119, the clock of line 116). A \<open>break\<close> is \<open>Returned\<close>. When the events
  are used up and the child is still running, nothing happens any more and the loop
  polls for ever: \<open>Blocked\<close>. In the model a \<open>print\<close> and a write into the buffer of the
  pipe do not fail; a flush fails on a pipe the child has closed.
\<close>

function main_loop :: "world \<Rightarrow> event list \<Rightarrow> outcome \<times> world" where
  "main_loop w evs =
     (let w0 = fst (absorb w evs); evs0 = snd (absorb w evs) in
      if \<not> poll w0 then (Returned, w0)
      else case evs0 of
             Dequeue None # rest \<Rightarrow> main_loop w0 rest
           | Dequeue (Some user_input) # rest \<Rightarrow>
               (let w1 = fst (absorb w0 rest); rest1 = snd (absorb w0 rest) in
                if lower user_input = ''exit'' then shutdown_server w1
                else case command user_input w1 of
                       (Returned, w2) \<Rightarrow> main_loop w2 rest1
                     | r \<Rightarrow> r)
           | Interrupt # rest \<Rightarrow> (Raised KeyboardInterrupt, w0)
           | _ \<Rightarrow> (Blocked, w0))"
  by pat_completeness auto

termination main_loop
proof -
  have len: "length (snd (absorb w evs)) \<le> length evs" for w evs
    by (induction w evs rule: absorb.induct) auto
  have step: "length rest < length evs"
    if "e # rest = snd (absorb w evs)" for e rest w evs
    using len [of w evs] that [symmetric] by simp
  show ?thesis
  proof (relation "measure (\<lambda>(w, evs). length evs)", goal_cases)
    case 1
    show ?case by simp
  next
    case (2 w evs w0 evs0 e rest x)
    then show ?case using step [of e rest w evs] by simp
  next
    case (3 w evs w0 evs0 e rest x user_input w1 rest1 r w2)
    have "length rest1 \<le> length rest"
      using 3 len [of w0 rest] by simp
    moreover have "length rest < length evs"
      using 3 step [of e rest w evs] by simp
    ultimately show ?case by simp
  qed
qed

declare main_loop.simps [simp del]

section \<open>main\<close>

definition closing_notice :: string where
  \<comment> \<open>the notice printed on an interrupt: a newline, seven Chinese characters in UTF-8
      ("shutting the server down"), three dots\<close>
  "closing_notice =
     NL # map char_of [0xE6, 0xAD, 0xA3, 0xE5, 0x9C, 0xA8, 0xE5, 0x85, 0xB3, 0xE9, 0x97, 0xAD,
                       0xE6, 0x9C, 0x8D, 0xE5, 0x8A, 0xA1, 0xE5, 0x99, 0xA8 :: nat] @ ''...''"

definition stop_event_set :: "world \<Rightarrow> outcome \<times> world" where
  "stop_event_set w = (Returned, call StopEventSet w)"

definition join_input_thread :: "nat \<Rightarrow> world \<Rightarrow> outcome \<times> world" where
  "join_input_thread t w = (Returned, call (JoinInputThread t) w)"

definition sys_stdin_close :: "world \<Rightarrow> outcome \<times> world" where
  "sys_stdin_close w = (Returned, call SysStdinClose w)"

text \<open>
  \<open>main\<close> from its \<open>try\<close> on (line 100): the world given is the one in which the child
  and the three threads have been started.
\<close>

definition main :: "world \<Rightarrow> event list \<Rightarrow> outcome \<times> world" where
  "main w evs =
     try_finally
       (case main_loop w evs of
          (Raised KeyboardInterrupt, w1) \<Rightarrow> seq (print closing_notice w1) shutdown_server
        | r \<Rightarrow> r)
       (\<lambda>w. seq (stop_event_set w)
          (\<lambda>w. seq (join_input_thread 1 w)
             (\<lambda>w. seq (if poll w then shutdown_server w else (Returned, w))
                (\<lambda>w. except_Exception_pass (sys_stdin_close w)))))"

definition stdin_writes :: "effect list \<Rightarrow> string list" where
  \<comment> \<open>the texts written to the child's input, in order\<close>
  "stdin_writes es = concat (map (\<lambda>e. case e of StdinWrite s \<Rightarrow> [s] | _ \<Rightarrow> []) es)"

section \<open>The relay and capture threads\<close>

text \<open>
  One turn of a polling loop on a pipe: \<open>select\<close> reports nothing to read, or it reports
  the pipe readable and \<open>readline\<close> returns a line (the empty string at end of file), or
  one of the two calls raises. A pipe hands its lines over in the order they were written.
\<close>

datatype pipe_event =
    NotReady
  | Ready string
  | SelectRaises exn
  | ReadlineRaises exn

fun read_output :: "pipe_event list \<Rightarrow> (string \<Rightarrow> world \<Rightarrow> outcome \<times> world) \<Rightarrow> world \<Rightarrow> outcome \<times> world" where
  "read_output [] callback w = (Blocked, w)"
| "read_output (NotReady # pipe) callback w = read_output pipe callback w"
| "read_output (Ready line # pipe) callback w =
     (if line = [] then (Returned, w)
      else case callback (rstrip line) w of
             (Returned, w') \<Rightarrow> read_output pipe callback w'
           | r \<Rightarrow> r)"
| "read_output (SelectRaises e # pipe) callback w = (Raised e, w)"
| "read_output (ReadlineRaises e # pipe) callback w = (Raised e, w)"

definition handle_output :: "string \<Rightarrow> world \<Rightarrow> outcome \<times> world" where
  "handle_output line w = print line w"

text \<open>
  The capture thread also looks at the stop flag at the head of each turn;
  \<open>StopEventIsSet\<close> is the turn at which it finds the flag set.
\<close>

datatype capture_event =
    StopEventIsSet
  | Stdin pipe_event

fun input_thread :: "capture_event list \<Rightarrow> string list \<Rightarrow> outcome \<times> string list" where
  "input_thread [] input_queue = (Blocked, input_queue)"
| "input_thread (StopEventIsSet # evs) input_queue = (Returned, input_queue)"
| "input_thread (Stdin NotReady # evs) input_queue = input_thread evs input_queue"
| "input_thread (Stdin (Ready line) # evs) input_queue =
     (if line = [] then (Returned, input_queue)
      else input_thread evs (input_queue @ [strip line]))"
| "input_thread (Stdin (SelectRaises e) # evs) input_queue =
     (if is_Exception e then (Returned, input_queue) else (Raised e, input_queue))"
| "input_thread (Stdin (ReadlineRaises e) # evs) input_queue =
     (if is_Exception e then (Returned, input_queue) else (Raised e, input_queue))"

section \<open>Vocabulary of the properties\<close>

definition exits_within :: "nat \<Rightarrow> world \<Rightarrow> bool" where
  \<comment> \<open>the child exits by itself within \<open>t\<close> time units of a wait\<close>
  "exits_within t w = (case exit_delay w of None \<Rightarrow> False | Some d \<Rightarrow> d \<le> t)"

definition forwarded :: "string \<Rightarrow> world \<Rightarrow> world" where
  \<comment> \<open>the world once the line, a newline added, has been written to the child and flushed\<close>
  "forwarded s w = w\<lparr>effects := effects w @ [StdinWrite (s @ [NL]), StdinFlush]\<rparr>"




definition started :: world where
  \<comment> \<open>an example: a running child that reads its input and exits 3 time units after it
      is waited for, at 10:15:07, nothing done yet\<close>
  "started = \<lparr>running = True, stdin_open = True, exit_delay = Some 3, heeds_sigterm = True,
              now = (10, 15, 7), effects = []\<rparr>"

section \<open>Auxiliary facts\<close>

subsection \<open>Sequencing and the call log\<close>

lemma seq_Returned: "seq (Returned, w) f = f w"
  by (simp add: seq_def)

lemma seq_Raised: "seq (Raised e, w) f = (Raised e, w)"
  by (simp add: seq_def)

lemma seq_Blocked: "seq (Blocked, w) f = (Blocked, w)"
  by (simp add: seq_def)

lemma stdin_writes_append: "stdin_writes (xs @ ys) = stdin_writes xs @ stdin_writes ys"
  by (simp add: stdin_writes_def)

lemma stdin_writes_Nil: "stdin_writes [] = []"
  by (simp add: stdin_writes_def)

lemma stdin_writes_Cons:
  "stdin_writes (e # es) = (case e of StdinWrite s \<Rightarrow> [s] | _ \<Rightarrow> []) @ stdin_writes es"
  by (simp add: stdin_writes_def)

lemmas stdin_writes_simps = stdin_writes_append stdin_writes_Nil stdin_writes_Cons

subsection \<open>Strings\<close>









lemma lower_ExIt: "lower ''ExIt'' = ''exit''"
  by code_simp

lemma lower_list: "lower ''list'' \<noteq> ''exit''"
  by code_simp



subsection \<open>The main loop, one event at a time\<close>

lemma absorb_effects: "effects (fst (absorb w evs)) = effects w"
  by (induction w evs rule: absorb.induct) auto

lemma absorb_idem: "absorb (fst (absorb w evs)) (snd (absorb w evs)) = absorb w evs"
  by (induction w evs rule: absorb.induct) auto


lemma main_loop_ChildExits: "main_loop w (ChildExits # evs) = main_loop (w\<lparr>running := False\<rparr>) evs"
  by (simp add: main_loop.simps [of w "ChildExits # evs"] main_loop.simps [of "w\<lparr>running := False\<rparr>" evs])

lemma main_loop_ChildClosesStdin:
  "main_loop w (ChildClosesStdin # evs) = main_loop (w\<lparr>stdin_open := False\<rparr>) evs"
  by (simp add: main_loop.simps [of w "ChildClosesStdin # evs"]
      main_loop.simps [of "w\<lparr>stdin_open := False\<rparr>" evs])

lemma main_loop_Clock:
  "main_loop w (Clock h m s # evs) = main_loop (w\<lparr>now := (h, m, s)\<rparr>) evs"
  by (simp add: main_loop.simps [of w "Clock h m s # evs"]
      main_loop.simps [of "w\<lparr>now := (h, m, s)\<rparr>" evs])

lemma main_loop_Empty:
  "main_loop w (Dequeue None # evs) = (if poll w then main_loop w evs else (Returned, w))"
  by (simp add: main_loop.simps [of w "Dequeue None # evs"])

lemma main_loop_Interrupt:
  "main_loop w (Interrupt # evs) = (if poll w then (Raised KeyboardInterrupt, w) else (Returned, w))"
  by (simp add: main_loop.simps [of w "Interrupt # evs"])

lemma main_loop_Line:
  "main_loop w (Dequeue (Some user_input) # evs) =
     (if poll w then
        if lower user_input = ''exit'' then shutdown_server (fst (absorb w evs))
        else case command user_input (fst (absorb w evs)) of
               (Returned, w2) \<Rightarrow> main_loop w2 (snd (absorb w evs))
             | r \<Rightarrow> r
      else (Returned, w))"
  by (simp add: main_loop.simps [of w "Dequeue (Some user_input) # evs"] Let_def)

lemma main_loop_exited: "\<not> poll w \<Longrightarrow> absorb w evs = (w, evs) \<Longrightarrow> main_loop w evs = (Returned, w)"
  by (simp add: main_loop.simps [of w evs])


lemma main_loop_command:
  assumes "poll w" and "lower user_input \<noteq> ''exit''"
  shows "main_loop w (Dequeue (Some user_input) # evs) =
           (case command user_input (fst (absorb w evs)) of
              (Returned, w2) \<Rightarrow> main_loop w2 (snd (absorb w evs))
            | r \<Rightarrow> r)"
  using assms by (simp add: main_loop_Line)

lemma main_loop_forward:
  assumes "poll w" and "lower user_input \<noteq> ''exit''"
    and "\<not> startswith user_input ''fakelog ''"
  shows "main_loop w (Dequeue (Some user_input) # evs) =
           (let w1 = fst (absorb w evs); rest = snd (absorb w evs) in
            if running w1 then
              if stdin_open w1 then main_loop (forwarded user_input w1) rest
              else (Raised BrokenPipeError, forwarded user_input w1)
            else (Returned, w1))"
proof -
  have "main_loop (fst (absorb w evs)) (snd (absorb w evs)) = (Returned, fst (absorb w evs))"
    if "\<not> running (fst (absorb w evs))"
    using that main_loop_exited [of "fst (absorb w evs)" "snd (absorb w evs)"]
    by (simp add: poll_def absorb_idem)
  then show ?thesis
    using assms
    by (simp add: main_loop_command command_def poll_def seq_Returned stdin_write_def
        stdin_flush_def call_def forwarded_def Let_def)
qed


subsection \<open>The shutdown sequence\<close>

lemma stop_sent:
  "except_Exception_pass (seq (stdin_write s w) stdin_flush) =
     (Returned, w\<lparr>effects := effects w @ [StdinWrite s, StdinFlush]\<rparr>)"
  by (simp add: except_Exception_pass_def seq_def stdin_write_def stdin_flush_def call_def
      is_Exception_def)

lemmas shutdown_unfold =
  shutdown_server_def poll_def stop_sent seq_Returned wait_timeout_def call_def
  terminate_def wait_def exits_within_def Let_def

lemma shutdown_server_effects:
  "running w \<Longrightarrow> effects (snd (shutdown_server w)) =
     effects w @ [StdinWrite (''stop'' @ [NL]), StdinFlush, WaitTimeout 10]
       @ (if exits_within 10 w then [] else [Terminate, Wait])"
  by (auto simp: shutdown_unfold split: option.splits)

lemma shutdown_server_outcome:
  "running w \<Longrightarrow> fst (shutdown_server w) =
     (if exit_delay w \<noteq> None \<or> heeds_sigterm w then Returned else Blocked)"
  by (auto simp: shutdown_unfold split: option.splits)

lemma shutdown_server_stops:
  "fst (shutdown_server w) = Returned \<Longrightarrow> \<not> running (snd (shutdown_server w))"
  by (auto simp: shutdown_unfold split: option.splits if_splits)

lemma shutdown_server_never_raises: "fst (shutdown_server w) \<noteq> Raised e"
  by (auto simp: shutdown_unfold split: option.splits if_splits)

lemma cleanup_stopped:
  assumes "\<not> running w"
  shows "seq (stop_event_set w)
          (\<lambda>w. seq (join_input_thread 1 w)
             (\<lambda>w. seq (if poll w then shutdown_server w else (Returned, w))
                (\<lambda>w. except_Exception_pass (sys_stdin_close w)))) =
         (Returned, w\<lparr>effects := effects w @ [StopEventSet, JoinInputThread 1, SysStdinClose]\<rparr>)"
  using assms
  by (simp add: stop_event_set_def join_input_thread_def sys_stdin_close_def seq_Returned
      poll_def call_def except_Exception_pass_def)

lemma main_after_shutdown:
  assumes "main_loop w evs = shutdown_server w1"
  shows "stdin_writes (effects (snd (main w evs))) = stdin_writes (effects (snd (shutdown_server w1)))"
proof (cases "shutdown_server w1")
  case (Pair r w')
  show ?thesis
  proof (cases r)
    case Returned
    with Pair have "\<not> running w'"
      using shutdown_server_stops [of w1] by simp
    then show ?thesis
      using assms Pair Returned cleanup_stopped [of w']
      by (simp add: main_def try_finally_def stdin_writes_simps)
  next
    case (Raised e)
    with Pair show ?thesis
      using shutdown_server_never_raises [of w1 e] by simp
  next
    case Blocked
    with Pair assms show ?thesis
      by (simp add: main_def try_finally_def)
  qed
qed

subsection \<open>The relay\<close>


section \<open>The claims\<close>

text \<open>
  C1. When the main loop, with the child running, takes from the queue a line that is
  \<open>exit\<close> in any letter case, it runs the shutdown sequence on the world as it then is
  and leaves the loop for good. Whatever is captured afterwards, \<open>main\<close> writes nothing
  more to the child's input than the one \<open>stop\<close> line of that shutdown (and not even
  that one when the child has exited in the meantime).
\<close>

theorem main_exit:
  assumes "poll w" and "lower user_input = ''exit''"
  shows "main_loop w (Dequeue (Some user_input) # evs) = shutdown_server (fst (absorb w evs))
       \<and> stdin_writes (effects (snd (main w (Dequeue (Some user_input) # evs)))) =
           stdin_writes (effects w)
             @ (if running (fst (absorb w evs)) then [''stop'' @ [NL]] else [])"
proof -
  let ?w1 = "fst (absorb w evs)"
  have loop: "main_loop w (Dequeue (Some user_input) # evs) = shutdown_server ?w1"
    using assms by (simp add: main_loop_Line)
  have "stdin_writes (effects (snd (shutdown_server ?w1))) =
          stdin_writes (effects w) @ (if running ?w1 then [''stop'' @ [NL]] else [])"
  proof (cases "running ?w1")
    case True
    then show ?thesis
      by (simp add: shutdown_server_effects stdin_writes_simps absorb_effects)
  next
    case False
    then show ?thesis
      by (simp add: shutdown_server_def poll_def absorb_effects)
  qed
  with loop main_after_shutdown [OF loop] show ?thesis by simp
qed

theorem main_exit_witness:
  "poll started \<and> lower ''ExIt'' = ''exit''
   \<and> main_loop started [Dequeue (Some ''ExIt''), Dequeue (Some ''list'')] = shutdown_server started
   \<and> stdin_writes (effects (snd (main started [Dequeue (Some ''ExIt''), Dequeue (Some ''list'')])))
       = [''stop'' @ [NL]]"
  using main_exit [of started "''ExIt''" "[Dequeue (Some ''list'')]"] lower_ExIt
  by (simp add: started_def poll_def stdin_writes_simps)

text \<open>
  C2. On a child that is still running, the shutdown makes exactly these calls, in this
  order: write \<open>stop\<close> and a newline to the child's input, flush, wait with a timeout
  of 10; and, only when the child does not exit within these 10 time units, terminate
  and wait without a timeout. The shutdown returns unless that last wait never ends, and
  when it returns the child has exited.
\<close>

theorem shutdown_server_steps:
  assumes "running w"
  shows "effects (snd (shutdown_server w)) =
           effects w @ [StdinWrite (''stop'' @ [NL]), StdinFlush, WaitTimeout 10]
             @ (if exits_within 10 w then [] else [Terminate, Wait])
       \<and> fst (shutdown_server w) =
           (if exit_delay w \<noteq> None \<or> heeds_sigterm w then Returned else Blocked)
       \<and> (fst (shutdown_server w) = Returned \<longrightarrow> \<not> running (snd (shutdown_server w)))"
  using assms shutdown_server_effects shutdown_server_outcome shutdown_server_stops by simp

theorem shutdown_server_steps_witness:
  "running started
   \<and> effects (snd (shutdown_server started)) =
       [StdinWrite (''stop'' @ [NL]), StdinFlush, WaitTimeout 10]
   \<and> fst (shutdown_server started) = Returned
   \<and> \<not> running (snd (shutdown_server started))
   \<and> effects (snd (shutdown_server (started\<lparr>exit_delay := Some 11\<rparr>))) =
       [StdinWrite (''stop'' @ [NL]), StdinFlush, WaitTimeout 10, Terminate, Wait]"
  using shutdown_server_steps [of started]
    shutdown_server_steps [of "started\<lparr>exit_delay := Some 11\<rparr>"]
  by (simp add: started_def exits_within_def)

text \<open>
  C3. Shutting down a child that has already exited does nothing: no call is made, no
  error is raised and the state is unchanged, also when the shutdown is run twice in a
  row.
\<close>

theorem shutdown_server_exited_noop:
  assumes "\<not> running w"
  shows "shutdown_server w = (Returned, w)
       \<and> seq (shutdown_server w) shutdown_server = (Returned, w)"
  using assms by (simp add: shutdown_server_def poll_def seq_def)

theorem shutdown_server_exited_noop_witness:
  "\<not> running (started\<lparr>running := False\<rparr>)
   \<and> shutdown_server (started\<lparr>running := False\<rparr>) = (Returned, started\<lparr>running := False\<rparr>)
   \<and> seq (shutdown_server (started\<lparr>running := False\<rparr>)) shutdown_server =
       (Returned, started\<lparr>running := False\<rparr>)"
proof -
  have stopped: "\<not> running (started\<lparr>running := False\<rparr>)" by simp
  from shutdown_server_exited_noop [OF stopped] stopped show ?thesis by blast
qed









text \<open>
  C7. The claim does not hold for the main loop: the child is running but has closed its
  input, the loop forwards the line \<open>list\<close>, the flush raises \<open>BrokenPipeError\<close>, and
  the error leaves the loop and, after the clean-up, \<open>main\<close>. The shutdown sequence on
  the same child swallows the error of its own write and returns.
\<close>

theorem main_write_error_escapes:
  "main_loop started [ChildClosesStdin, Dequeue (Some ''list'')] =
     (Raised BrokenPipeError, forwarded ''list'' (started\<lparr>stdin_open := False\<rparr>))
   \<and> fst (main started [ChildClosesStdin, Dequeue (Some ''list'')]) = Raised BrokenPipeError
   \<and> fst (shutdown_server (started\<lparr>stdin_open := False\<rparr>)) = Returned"
proof -
  have loop: "main_loop started [ChildClosesStdin, Dequeue (Some ''list'')] =
     (Raised BrokenPipeError, forwarded ''list'' (started\<lparr>stdin_open := False\<rparr>))"
    using lower_list
    by (simp add: main_loop_ChildClosesStdin main_loop_forward started_def poll_def
        startswith_def)
  have "running (forwarded ''list'' (started\<lparr>stdin_open := False\<rparr>))"
    by (simp add: forwarded_def started_def)
  then have "fst (shutdown_server (forwarded ''list'' (started\<lparr>stdin_open := False\<rparr>))) = Returned"
    by (simp add: shutdown_server_outcome forwarded_def started_def)
  then obtain w' where sd: "shutdown_server (forwarded ''list'' (started\<lparr>stdin_open := False\<rparr>)) = (Returned, w')"
    by (metis prod.collapse)
  have "fst (main started [ChildClosesStdin, Dequeue (Some ''list'')]) = Raised BrokenPipeError"
    unfolding main_def loop
    by (simp add: try_finally_def stop_event_set_def join_input_thread_def
        forwarded_def started_def sys_stdin_close_def stdin_write_def stdin_flush_def
        is_Exception_def except_Exception_pass_def shutdown_unfold)
  moreover have "fst (shutdown_server (started\<lparr>stdin_open := False\<rparr>)) = Returned"
    by (simp add: shutdown_server_outcome started_def)
  ultimately show ?thesis using loop by simp
qed

text \<open>
  C8. The claim does not hold for the relay: a read error raised by \<open>readline\<close> leaves
  \<open>read_output\<close> as an exception. The capture thread, on the same turns, returns.
\<close>

theorem read_output_error_escapes:
  "read_output [NotReady, ReadlineRaises OSError] handle_output started = (Raised OSError, started)
   \<and> input_thread [Stdin NotReady, Stdin (ReadlineRaises OSError)] [] = (Returned, [])"
  by (simp add: is_Exception_def)





end
